theory Spec2Isabelle
  imports Main
begin

section \<open>Data model\<close>

text \<open>
  \<^verbatim>\<open>models.py\<close>: the role enumeration and the persisted account row. The primary key
  \<^verbatim>\<open>id\<close> is called \<open>user_id\<close> here, since \<open>id\<close> is the identity function of HOL. The
  column \<^verbatim>\<open>full_name\<close> is nullable; \<^verbatim>\<open>role\<close> and \<^verbatim>\<open>is_active\<close> are not.
\<close>

datatype UserRole = ADMIN | CLIENT

fun role_value :: "UserRole \<Rightarrow> string" where
  "role_value ADMIN = ''admin''"
| "role_value CLIENT = ''client''"

record User =
  user_id :: int
  username :: string
  email :: string
  full_name :: "string option"
  hashed_password :: string
  role :: UserRole
  is_active :: bool

text \<open>
  \<^verbatim>\<open>config.py\<close>: the settings the authentication code reads. Every field can be
  overridden from the environment, so the functions below take the settings as an
  argument; \<open>settings\<close> is the instance with the defaults written in the source.
\<close>

record Settings =
  API_KEY :: string
  JWT_SECRET_KEY :: string
  JWT_ALGORITHM :: string
  JWT_EXPIRATION_MINUTES :: int

definition settings :: Settings where
  "settings = \<lparr> API_KEY = ''your-secret-api-key-12345'',
     JWT_SECRET_KEY = ''your-super-secret-jwt-key-change-this-in-production-09d25e094faa6ca2556c818166b7a9563b93f7099f6f0f4caa6cf63b88e8d3e7'',
     JWT_ALGORITHM = ''HS256'',
     JWT_EXPIRATION_MINUTES = 1440 \<rparr>"

text \<open>
  A raised \<^verbatim>\<open>HTTPException\<close> is a value: status code, detail and headers. The only other
  exception of the modelled paths is the storage engine's \<^verbatim>\<open>IntegrityError\<close> on a
  violated \<^verbatim>\<open>unique=True\<close> column.
\<close>

datatype HTTPException =
  HTTPException (status_code: nat) (detail: string) (headers: "(string \<times> string) list")

datatype exn = Http HTTPException | IntegrityError

text \<open>
  Token claims are a dictionary from claim names to JSON values; the values this
  repository writes and reads are strings (\<^verbatim>\<open>sub\<close>, \<^verbatim>\<open>role\<close>) and a time in whole seconds
  (\<^verbatim>\<open>exp\<close>). Times and durations are integers counting seconds.
\<close>

datatype claim = Str string | Num int

type_synonym payload = "string \<rightharpoonup> claim"

datatype JWTError = JWTError | ExpiredSignatureError | JWTClaimsError

record 'tok HTTPAuthorizationCredentials =
  scheme :: string
  credentials :: 'tok

text \<open>
  The two library calls \<^verbatim>\<open>jwt.encode(claims, key, algorithm)\<close> and
  \<^verbatim>\<open>jwt.decode(token, key, algorithms)\<close> are arguments of the functions that call them;
  the decoder either raises a \<^verbatim>\<open>JWTError\<close> (or one of its subclasses) or returns the
  claims.
\<close>

type_synonym 'tok jwt_encode = "payload \<Rightarrow> string \<Rightarrow> string \<Rightarrow> 'tok"
type_synonym 'tok jwt_decode = "'tok \<Rightarrow> string \<Rightarrow> string list \<Rightarrow> JWTError + payload"

section \<open>jwt_auth.py\<close>

text \<open>
  \<^verbatim>\<open>verify_password\<close>: \<^verbatim>\<open>bcrypt.checkpw\<close> is an argument; \<open>None\<close> stands for any exception
  it raises, which the source turns into \<^verbatim>\<open>False\<close>.
\<close>

definition verify_password :: "(string \<Rightarrow> string \<Rightarrow> bool option) \<Rightarrow> string \<Rightarrow> string \<Rightarrow> bool" where
  "verify_password checkpw plain_password hashed =
     (case checkpw plain_password hashed of None \<Rightarrow> False | Some b \<Rightarrow> b)"

text \<open>
  \<^verbatim>\<open>hash_password\<close>: \<^verbatim>\<open>bcrypt.hashpw\<close> and the salt drawn by \<^verbatim>\<open>bcrypt.gensalt()\<close> are
  arguments.
\<close>

definition hash_password :: "(string \<Rightarrow> string \<Rightarrow> string) \<Rightarrow> string \<Rightarrow> string \<Rightarrow> string" where
  "hash_password hashpw salt password = hashpw password salt"

text \<open>The account table is the list of its rows; \<^verbatim>\<open>.first()\<close> takes the first match.\<close>

definition get_user_by_username :: "User list \<Rightarrow> string \<Rightarrow> User option" where
  "get_user_by_username db name = find (\<lambda>u. username u = name) db"

definition get_user_by_email :: "User list \<Rightarrow> string \<Rightarrow> User option" where
  "get_user_by_email db mail = find (\<lambda>u. email u = mail) db"

text \<open>
  \<^verbatim>\<open>create_user\<close>: \<^verbatim>\<open>db.add\<close>, \<^verbatim>\<open>db.commit\<close>, \<^verbatim>\<open>db.refresh\<close>. The commit fails with
  \<^verbatim>\<open>IntegrityError\<close> when the username or the email is already in the table (both
  columns are \<^verbatim>\<open>unique=True\<close>); otherwise the row is appended with a fresh primary key,
  one more than the largest in the table, and returned with it.
\<close>

definition next_id :: "User list \<Rightarrow> int" where
  "next_id db = fold (\<lambda>u m. max (user_id u) m) db 0 + 1"

definition create_user ::
  "(string \<Rightarrow> string \<Rightarrow> string) \<Rightarrow> string \<Rightarrow> User list \<Rightarrow> string \<Rightarrow> string \<Rightarrow> string \<Rightarrow>
   string option \<Rightarrow> UserRole \<Rightarrow> exn + (User list \<times> User)" where
  "create_user hashpw salt db name mail password fname r =
     (let hashed = hash_password hashpw salt password;
          db_user = \<lparr> user_id = next_id db, username = name, email = mail, full_name = fname,
                      hashed_password = hashed, role = r, is_active = True \<rparr>
      in if list_ex (\<lambda>u. username u = name \<or> email u = mail) db then Inl IntegrityError
         else Inr (db @ [db_user], db_user))"

definition authenticate_user ::
  "(string \<Rightarrow> string \<Rightarrow> bool option) \<Rightarrow> User list \<Rightarrow> string \<Rightarrow> string \<Rightarrow> User option" where
  "authenticate_user checkpw db name password =
     (case get_user_by_username db name of
        None \<Rightarrow> None
      | Some user \<Rightarrow>
          if \<not> verify_password checkpw password (hashed_password user) then None
          else if \<not> is_active user then None
          else Some user)"

text \<open>
  \<^verbatim>\<open>create_access_token\<close>: \<open>now\<close> is the value of \<^verbatim>\<open>datetime.utcnow()\<close>. The test
  \<^verbatim>\<open>if expires_delta:\<close> is false for \<^verbatim>\<open>None\<close> and also for a zero \<^verbatim>\<open>timedelta\<close>.
\<close>

definition ACCESS_TOKEN_EXPIRE_MINUTES :: "Settings \<Rightarrow> int" where
  "ACCESS_TOKEN_EXPIRE_MINUTES S = JWT_EXPIRATION_MINUTES S"

definition minutes :: "int \<Rightarrow> int" where
  "minutes m = 60 * m"

definition create_access_token ::
  "Settings \<Rightarrow> 'tok jwt_encode \<Rightarrow> int \<Rightarrow> payload \<Rightarrow> int option \<Rightarrow> 'tok" where
  "create_access_token S encode now data expires_delta =
     (let expire = (case expires_delta of
                      Some d \<Rightarrow> if d \<noteq> 0 then now + d
                                else now + minutes (ACCESS_TOKEN_EXPIRE_MINUTES S)
                    | None \<Rightarrow> now + minutes (ACCESS_TOKEN_EXPIRE_MINUTES S));
          to_encode = data(''exp'' \<mapsto> Num expire)
      in encode to_encode (JWT_SECRET_KEY S) (JWT_ALGORITHM S))"

text \<open>
  \<^verbatim>\<open>get_current_user\<close>: every \<^verbatim>\<open>JWTError\<close> of the decoder and a missing \<^verbatim>\<open>sub\<close> raise the
  same \<open>credentials_exception\<close>, and so does a subject with no account. A subject
  that is not a string names no account.
\<close>

definition credentials_exception :: HTTPException where
  "credentials_exception =
     HTTPException 401 ''Could not validate credentials'' [(''WWW-Authenticate'', ''Bearer'')]"

definition get_current_user ::
  "Settings \<Rightarrow> 'tok jwt_decode \<Rightarrow> User list \<Rightarrow> 'tok HTTPAuthorizationCredentials \<Rightarrow>
   HTTPException + User" where
  "get_current_user S decode db creds =
     (let token = credentials creds in
      case decode token (JWT_SECRET_KEY S) [JWT_ALGORITHM S] of
        Inl e \<Rightarrow> Inl credentials_exception
      | Inr payload \<Rightarrow>
          (case payload ''sub'' of
             None \<Rightarrow> Inl credentials_exception
           | Some (Num n) \<Rightarrow> Inl credentials_exception
           | Some (Str name) \<Rightarrow>
               (case get_user_by_username db name of
                  None \<Rightarrow> Inl credentials_exception
                | Some user \<Rightarrow> Inr user)))"

section \<open>auth.py and auth_dependencies.py\<close>

definition get_api_key :: "Settings \<Rightarrow> string option \<Rightarrow> HTTPException + string option" where
  "get_api_key S api_key =
     (case api_key of
        None \<Rightarrow> Inr None
      | Some k \<Rightarrow>
          if k = API_KEY S then Inr (Some k)
          else Inl (HTTPException 401 ''Invalid API Key'' [(''WWW-Authenticate'', ''ApiKey'')]))"

definition virtual_admin :: User where
  "virtual_admin = \<lparr> user_id = 0, username = ''api_key_user'', email = ''api@system.com'',
     full_name = Some ''API Key User'', hashed_password = '''', role = ADMIN,
     is_active = True \<rparr>"

text \<open>
  \<^verbatim>\<open>get_current_user_dual\<close>, the body of the function once its dependencies have been
  resolved. \<^verbatim>\<open>if bearer_credentials:\<close> holds for every credentials object;
  \<^verbatim>\<open>if api_key:\<close> holds for every non-empty string.
\<close>

definition get_current_user_dual ::
  "Settings \<Rightarrow> 'tok jwt_decode \<Rightarrow> User list \<Rightarrow> 'tok HTTPAuthorizationCredentials option \<Rightarrow>
   string option \<Rightarrow> User option" where
  "get_current_user_dual S decode db bearer_credentials api_key =
     (let from_jwt = (case bearer_credentials of
                        None \<Rightarrow> None
                      | Some creds \<Rightarrow>
                          (case get_current_user S decode db creds of
                             Inr user \<Rightarrow> Some user
                           | Inl e \<Rightarrow> None))
      in case from_jwt of
           Some user \<Rightarrow> Some user
         | None \<Rightarrow>
             (case api_key of
                Some k \<Rightarrow> if k \<noteq> [] then Some virtual_admin else None
              | None \<Rightarrow> None))"

definition require_authentication :: "User option \<Rightarrow> HTTPException + User" where
  "require_authentication user =
     (case user of
        None \<Rightarrow> Inl (HTTPException 401
          ''Authentication required. Provide either JWT token (Authorization: Bearer) or API Key (X-API-Key)''
          [(''WWW-Authenticate'', ''Bearer'')])
      | Some u \<Rightarrow> Inr u)"

definition require_admin :: "User \<Rightarrow> HTTPException + User" where
  "require_admin user =
     (if role user \<noteq> ADMIN then Inl (HTTPException 403 ''Admin privileges required'' [])
      else Inr user)"

text \<open>
  The dependency chain of a request. The framework resolves the parameters declared
  with \<^verbatim>\<open>Depends\<close> before it calls the function, and an exception raised by a dependency
  ends the request. A request carries what the two header extractors deliver (both
  \<^verbatim>\<open>auto_error=False\<close>): the bearer credentials or nothing, the \<^verbatim>\<open>X-API-Key\<close> value or
  nothing.
\<close>

record 'tok request =
  authorization :: "'tok HTTPAuthorizationCredentials option"
  x_api_key :: "string option"

definition depends_get_current_user_dual ::
  "Settings \<Rightarrow> 'tok jwt_decode \<Rightarrow> User list \<Rightarrow> 'tok request \<Rightarrow> HTTPException + User option" where
  "depends_get_current_user_dual S decode db req =
     (case get_api_key S (x_api_key req) of
        Inl e \<Rightarrow> Inl e
      | Inr api_key \<Rightarrow> Inr (get_current_user_dual S decode db (authorization req) api_key))"

definition depends_require_authentication ::
  "Settings \<Rightarrow> 'tok jwt_decode \<Rightarrow> User list \<Rightarrow> 'tok request \<Rightarrow> HTTPException + User" where
  "depends_require_authentication S decode db req =
     (case depends_get_current_user_dual S decode db req of
        Inl e \<Rightarrow> Inl e
      | Inr user \<Rightarrow> require_authentication user)"

definition depends_require_admin ::
  "Settings \<Rightarrow> 'tok jwt_decode \<Rightarrow> User list \<Rightarrow> 'tok request \<Rightarrow> HTTPException + User" where
  "depends_require_admin S decode db req =
     (case depends_require_authentication S decode db req of
        Inl e \<Rightarrow> Inl e
      | Inr user \<Rightarrow> require_admin user)"

section \<open>routers/auth_router.py\<close>

text \<open>
  \<^verbatim>\<open>schemas.py\<close>: the request bodies of registration and login, after validation, and
  the dictionary both handlers return. The fields of the request bodies carry the
  prefixes \<open>uc_\<close> and \<open>ul_\<close>, since the account row already owns the plain names.
\<close>

record UserCreate =
  uc_username :: string
  uc_email :: string
  uc_full_name :: "string option"
  uc_password :: string
  uc_role :: UserRole

record UserLogin =
  ul_username :: string
  ul_password :: string

record 'tok Token =
  access_token :: 'tok
  token_type :: string
  user :: User

text \<open>
  \<^verbatim>\<open>register\<close> returns the table after the insertion together with the response. The
  three checks run in the order of the source: username, email, then the rule on the
  first account.
\<close>

definition register ::
  "Settings \<Rightarrow> 'tok jwt_encode \<Rightarrow> (string \<Rightarrow> string \<Rightarrow> string) \<Rightarrow> string \<Rightarrow> int \<Rightarrow>
   User list \<Rightarrow> UserCreate \<Rightarrow> exn + (User list \<times> 'tok Token)" where
  "register S encode hashpw salt now db user_data =
     (if get_user_by_username db (uc_username user_data) \<noteq> None
      then Inl (Http (HTTPException 400 ''Username already registered'' []))
      else if get_user_by_email db (uc_email user_data) \<noteq> None
      then Inl (Http (HTTPException 400 ''Email already registered'' []))
      else let user_count = length db in
        if user_count > 0 \<and> role_value (uc_role user_data) = ''admin''
        then Inl (Http (HTTPException 403
               ''Cannot self-register as admin. Please contact an existing admin.'' []))
        else
          (case create_user hashpw salt db (uc_username user_data) (uc_email user_data)
                  (uc_password user_data) (uc_full_name user_data) (uc_role user_data) of
             Inl e \<Rightarrow> Inl e
           | Inr (db', db_user) \<Rightarrow>
               (let access_token_expires = minutes (ACCESS_TOKEN_EXPIRE_MINUTES S);
                    tok = create_access_token S encode now
                            [''sub'' \<mapsto> Str (username db_user),
                             ''role'' \<mapsto> Str (role_value (role db_user))]
                            (Some access_token_expires)
                in Inr (db', \<lparr> access_token = tok, token_type = ''bearer'',
                               user = db_user \<rparr>))))"

definition login ::
  "Settings \<Rightarrow> 'tok jwt_encode \<Rightarrow> (string \<Rightarrow> string \<Rightarrow> bool option) \<Rightarrow> int \<Rightarrow>
   User list \<Rightarrow> UserLogin \<Rightarrow> HTTPException + 'tok Token" where
  "login S encode checkpw now db user_data =
     (case authenticate_user checkpw db (ul_username user_data) (ul_password user_data) of
        None \<Rightarrow> Inl (HTTPException 401 ''Incorrect username or password''
                   [(''WWW-Authenticate'', ''Bearer'')])
      | Some u \<Rightarrow>
          (let access_token_expires = minutes (ACCESS_TOKEN_EXPIRE_MINUTES S);
               tok = create_access_token S encode now
                       [''sub'' \<mapsto> Str (username u), ''role'' \<mapsto> Str (role_value (role u))]
                       (Some access_token_expires)
           in Inr \<lparr> access_token = tok, token_type = ''bearer'', user = u \<rparr>))"

section \<open>The token library\<close>

text \<open>
  The signing library (python-jose) is a dependency of the repository. Its two
  functions are modelled symbolically: a token is either the claims signed under a key
  with an algorithm, or a string that is no token at all; a signature verifies when
  the key is the signing key. With the options this repository passes (none, so the
  library's defaults) the decoder checks the algorithm against the allowed list, the
  signature, the \<^verbatim>\<open>exp\<close> claim when there is one (it must be a number and must not lie
  before the current time), and that a \<^verbatim>\<open>sub\<close> claim, when there is one, is a string.
  The default options do not require any claim to be present. Sub-second parts of
  times are dropped, as the library does when it writes and reads \<^verbatim>\<open>exp\<close>.
\<close>

datatype token = JWS string payload string | Malformed string

definition jose_encode :: "token jwt_encode" where
  "jose_encode claims key algorithm = JWS algorithm claims key"

definition jose_decode :: "int \<Rightarrow> token jwt_decode" where
  "jose_decode now tok key algorithms =
     (case tok of
        Malformed s \<Rightarrow> Inl JWTError
      | JWS alg claims k \<Rightarrow>
          if alg \<notin> set algorithms then Inl JWTError
          else if k \<noteq> key then Inl JWTError
          else
            (case claims ''exp'' of
               Some (Str s) \<Rightarrow> Inl JWTClaimsError
             | Some (Num e) \<Rightarrow>
                 if e < now then Inl ExpiredSignatureError
                 else (case claims ''sub'' of
                         Some (Num n) \<Rightarrow> Inl JWTClaimsError
                       | _ \<Rightarrow> Inr claims)
             | None \<Rightarrow>
                 (case claims ''sub'' of
                    Some (Num n) \<Rightarrow> Inl JWTClaimsError
                  | _ \<Rightarrow> Inr claims)))"

section \<open>Accounts of create_default_users.py\<close>

text \<open>
  The three accounts the seeding script inserts into an empty table, with the keys
  the table gives them. The stored hashes are written as the salt followed by the
  password: the hashing function and its checker used in the examples below.
\<close>

definition example_hashpw :: "string \<Rightarrow> string \<Rightarrow> string" where
  "example_hashpw password salt = salt @ password"

definition example_checkpw :: "string \<Rightarrow> string \<Rightarrow> bool option" where
  "example_checkpw password hashed =
     (if take 4 hashed = ''$2b$'' then Some (hashed = ''$2b$'' @ password) else None)"

definition admin_user :: User where
  "admin_user = \<lparr> user_id = 1, username = ''admin'', email = ''admin@example.com'',
     full_name = Some ''Admin User'', hashed_password = example_hashpw ''admin123'' ''$2b$'',
     role = ADMIN, is_active = True \<rparr>"

definition client_user :: User where
  "client_user = \<lparr> user_id = 2, username = ''client'', email = ''client@example.com'',
     full_name = Some ''Client User'', hashed_password = example_hashpw ''client123'' ''$2b$'',
     role = CLIENT, is_active = True \<rparr>"

definition demo_admin :: User where
  "demo_admin = \<lparr> user_id = 3, username = ''demoadmin'', email = ''demoadmin@example.com'',
     full_name = Some ''Demo Admin'', hashed_password = example_hashpw ''demo123'' ''$2b$'',
     role = ADMIN, is_active = True \<rparr>"

definition default_users :: "User list" where
  "default_users = [admin_user, client_user, demo_admin]"

text \<open>The token a login of the account \<open>u\<close> at time \<open>now\<close> returns.\<close>

definition login_token :: "int \<Rightarrow> User \<Rightarrow> token" where
  "login_token now u =
     create_access_token settings jose_encode now
       [''sub'' \<mapsto> Str (username u), ''role'' \<mapsto> Str (role_value (role u))]
       (Some (minutes (ACCESS_TOKEN_EXPIRE_MINUTES settings)))"

definition bearer :: "token \<Rightarrow> token HTTPAuthorizationCredentials" where
  "bearer tok = \<lparr> scheme = ''Bearer'', credentials = tok \<rparr>"


section \<open>Auxiliary facts\<close>

lemma login_token_eq:
  "login_token now u =
     JWS (JWT_ALGORITHM settings)
       [''sub'' \<mapsto> Str (username u), ''role'' \<mapsto> Str (role_value (role u)),
        ''exp'' \<mapsto> Num (now + 86400)]
       (JWT_SECRET_KEY settings)"
  by (simp add: login_token_def create_access_token_def jose_encode_def minutes_def
      ACCESS_TOKEN_EXPIRE_MINUTES_def settings_def)

lemma get_current_user_Inr_iff:
  "get_current_user S decode db creds = Inr u \<longleftrightarrow>
     (\<exists>payload name. decode (credentials creds) (JWT_SECRET_KEY S) [JWT_ALGORITHM S] = Inr payload
        \<and> payload ''sub'' = Some (Str name) \<and> get_user_by_username db name = Some u)"
  by (auto simp: get_current_user_def Let_def split: sum.splits option.splits claim.splits)

lemma get_current_user_Inl:
  "get_current_user S decode db creds = Inl e \<Longrightarrow> e = credentials_exception"
  by (auto simp: get_current_user_def Let_def split: sum.splits option.splits claim.splits)


lemma dual_bearer_ok:
  "get_current_user S decode db creds = Inr u \<Longrightarrow>
   get_current_user_dual S decode db (Some creds) k = Some u"
  by (simp add: get_current_user_dual_def)

lemma dual_bearer_failed:
  "get_current_user S decode db creds = Inl e \<Longrightarrow>
   get_current_user_dual S decode db (Some creds) k =
     (case k of None \<Rightarrow> None | Some s \<Rightarrow> if s \<noteq> [] then Some virtual_admin else None)"
  by (simp add: get_current_user_dual_def split: option.splits)

lemma dual_no_bearer:
  "get_current_user_dual S decode db None k =
     (case k of None \<Rightarrow> None | Some s \<Rightarrow> if s \<noteq> [] then Some virtual_admin else None)"
  by (simp add: get_current_user_dual_def split: option.splits)

lemma bearer_fails_malformed:
  "get_current_user S (jose_decode now) db \<lparr>scheme = sch, credentials = Malformed s\<rparr>
     = Inl credentials_exception"
  by (simp add: get_current_user_def jose_decode_def)

lemma bearer_fails_bad_signature:
  "k \<noteq> JWT_SECRET_KEY S \<Longrightarrow>
   get_current_user S (jose_decode now) db \<lparr>scheme = sch, credentials = JWS alg claims k\<rparr>
     = Inl credentials_exception"
  by (simp add: get_current_user_def jose_decode_def)

lemma bearer_fails_expired:
  "claims ''exp'' = Some (Num e) \<Longrightarrow> e < now \<Longrightarrow>
   get_current_user S (jose_decode now) db \<lparr>scheme = sch, credentials = JWS alg claims k\<rparr>
     = Inl credentials_exception"
  by (simp add: get_current_user_def jose_decode_def)

lemma bearer_fails_missing_subject:
  "claims ''sub'' = None \<Longrightarrow>
   get_current_user S (jose_decode now) db \<lparr>scheme = sch, credentials = JWS alg claims k\<rparr>
     = Inl credentials_exception"
  by (simp add: get_current_user_def jose_decode_def split: option.splits claim.splits)

lemma bearer_fails_unknown_subject:
  "claims ''sub'' = Some (Str name) \<Longrightarrow> get_user_by_username db name = None \<Longrightarrow>
   get_current_user S (jose_decode now) db \<lparr>scheme = sch, credentials = JWS alg claims k\<rparr>
     = Inl credentials_exception"
  by (simp add: get_current_user_def jose_decode_def split: option.splits claim.splits)

lemma client_token_verifies:
  "get_current_user settings (jose_decode 2000) default_users (bearer (login_token 1000 client_user))
     = Inr client_user"
  by (simp add: login_token_eq get_current_user_def jose_decode_def bearer_def default_users_def
      get_user_by_username_def admin_user_def client_user_def)

lemma client_token_expired:
  "get_current_user settings (jose_decode 90000) default_users (bearer (login_token 1000 client_user))
     = Inl credentials_exception"
  by (simp add: login_token_eq get_current_user_def jose_decode_def bearer_def)

lemma api_key_nonempty: "API_KEY settings \<noteq> []"
  by (simp add: settings_def)

section \<open>Identity resolution\<close>

text \<open>
  Claim C1. A request carries bearer credentials that \<^verbatim>\<open>get_current_user\<close> verifies
  against an account \<open>u\<close> with role client. Then \<^verbatim>\<open>get_current_user_dual\<close> returns \<open>u\<close>
  whatever the API-key argument is (the key is not consulted), the dependency chain
  of a request that also carries the configured API key resolves to \<open>u\<close>, and the role
  of \<open>u\<close> is not the admin role the API key would have given.
\<close>

theorem bearer_takes_precedence:
  assumes "get_current_user S decode db creds = Inr u" and "role u = CLIENT"
  shows "get_current_user_dual S decode db (Some creds) api_key = Some u
       \<and> depends_get_current_user_dual S decode db
            \<lparr>authorization = Some creds, x_api_key = Some (API_KEY S)\<rparr> = Inr (Some u)
       \<and> role u \<noteq> role virtual_admin"
proof -
  have "get_current_user_dual S decode db (Some creds) k = Some u" for k
    using assms(1) by (rule dual_bearer_ok)
  moreover have "role virtual_admin = ADMIN"
    by (simp add: virtual_admin_def)
  ultimately show ?thesis
    using assms(2) by (simp add: depends_get_current_user_dual_def get_api_key_def)
qed

text \<open>
  The client of the seeding script, with the token of a login at time 1000, verified
  at time 2000 together with the configured API key.
\<close>

theorem bearer_takes_precedence_witness:
  "get_current_user settings (jose_decode 2000) default_users
       (bearer (login_token 1000 client_user)) = Inr client_user
   \<and> role client_user = CLIENT
   \<and> get_current_user_dual settings (jose_decode 2000) default_users
       (Some (bearer (login_token 1000 client_user))) (Some (API_KEY settings)) = Some client_user
   \<and> depends_get_current_user_dual settings (jose_decode 2000) default_users
       \<lparr>authorization = Some (bearer (login_token 1000 client_user)),
        x_api_key = Some (API_KEY settings)\<rparr> = Inr (Some client_user)"
proof -
  have h1: "get_current_user settings (jose_decode 2000) default_users
       (bearer (login_token 1000 client_user)) = Inr client_user"
    by (rule client_token_verifies)
  have h2: "role client_user = CLIENT"
    by (simp add: client_user_def)
  show ?thesis
    using h1 h2 bearer_takes_precedence [where api_key = "Some (API_KEY settings)", OF h1 h2]
    by simp
qed

text \<open>
  Claim C2. A request carries bearer credentials that fail verification, for whatever
  reason (the lemmas \<open>bearer_fails_malformed\<close>, \<open>bearer_fails_bad_signature\<close>,
  \<open>bearer_fails_expired\<close>, \<open>bearer_fails_missing_subject\<close> and
  \<open>bearer_fails_unknown_subject\<close> give the causes), together with the configured,
  non-empty API key. Then the resolver returns \<open>virtual_admin\<close>: a constant built
  without reading the account table, with id 0, role admin and the active flag set.
  The request is not aborted; it even passes the admin gate.
\<close>

theorem failed_bearer_falls_back_to_api_key:
  assumes "get_current_user S decode db creds = Inl e" and "API_KEY S \<noteq> []"
  shows "get_current_user_dual S decode db (Some creds) (Some (API_KEY S)) = Some virtual_admin
       \<and> depends_get_current_user_dual S decode db
            \<lparr>authorization = Some creds, x_api_key = Some (API_KEY S)\<rparr> = Inr (Some virtual_admin)
       \<and> depends_require_admin S decode db
            \<lparr>authorization = Some creds, x_api_key = Some (API_KEY S)\<rparr> = Inr virtual_admin
       \<and> user_id virtual_admin = 0 \<and> role virtual_admin = ADMIN \<and> is_active virtual_admin"
proof -
  have "get_current_user_dual S decode db (Some creds) (Some (API_KEY S)) = Some virtual_admin"
    using assms by (simp add: dual_bearer_failed)
  moreover have "user_id virtual_admin = 0 \<and> role virtual_admin = ADMIN \<and> is_active virtual_admin"
    by (simp add: virtual_admin_def)
  ultimately show ?thesis
    by (simp add: depends_require_admin_def depends_require_authentication_def
        depends_get_current_user_dual_def get_api_key_def require_authentication_def
        require_admin_def)
qed

text \<open>
  The client's token of time 1000 has expired at time 90000; the default API key is
  not empty.
\<close>

theorem failed_bearer_falls_back_to_api_key_witness:
  "get_current_user settings (jose_decode 90000) default_users
       (bearer (login_token 1000 client_user)) = Inl credentials_exception
   \<and> API_KEY settings \<noteq> []
   \<and> depends_get_current_user_dual settings (jose_decode 90000) default_users
       \<lparr>authorization = Some (bearer (login_token 1000 client_user)),
        x_api_key = Some (API_KEY settings)\<rparr> = Inr (Some virtual_admin)"
proof -
  have h1: "get_current_user settings (jose_decode 90000) default_users
       (bearer (login_token 1000 client_user)) = Inl credentials_exception"
    by (rule client_token_expired)
  have h2: "API_KEY settings \<noteq> []"
    by (rule api_key_nonempty)
  show ?thesis
    using h1 h2 failed_bearer_falls_back_to_api_key [OF h1 h2] by simp
qed




text \<open>
  Claim C4. With no API key, and with bearer credentials that are absent or fail
  verification, the resolver returns no identity and raises nothing; the gate
  \<^verbatim>\<open>require_authentication\<close> then fails with 401. Given an identity, the gate returns it
  unchanged.
\<close>

theorem no_identity_is_unauthenticated:
  assumes "b = None \<or> (\<exists>creds e. b = Some creds \<and> get_current_user S decode db creds = Inl e)"
  shows "get_current_user_dual S decode db b None = None
       \<and> depends_get_current_user_dual S decode db \<lparr>authorization = b, x_api_key = None\<rparr>
           = Inr None
       \<and> depends_require_authentication S decode db \<lparr>authorization = b, x_api_key = None\<rparr>
           = Inl (HTTPException 401
               ''Authentication required. Provide either JWT token (Authorization: Bearer) or API Key (X-API-Key)''
               [(''WWW-Authenticate'', ''Bearer'')])
       \<and> require_authentication (Some u) = Inr u"
proof -
  have "get_current_user_dual S decode db b None = None"
    using assms by (auto simp: dual_no_bearer dual_bearer_failed)
  then show ?thesis
    by (simp add: depends_require_authentication_def depends_get_current_user_dual_def
        get_api_key_def require_authentication_def)
qed

theorem no_identity_is_unauthenticated_witness:
  "get_current_user settings (jose_decode 90000) default_users
       (bearer (login_token 1000 client_user)) = Inl credentials_exception
   \<and> get_current_user_dual settings (jose_decode 90000) default_users
       (Some (bearer (login_token 1000 client_user))) None = None
   \<and> depends_require_authentication settings (jose_decode 90000) default_users
       \<lparr>authorization = Some (bearer (login_token 1000 client_user)), x_api_key = None\<rparr>
     = Inl (HTTPException 401
         ''Authentication required. Provide either JWT token (Authorization: Bearer) or API Key (X-API-Key)''
         [(''WWW-Authenticate'', ''Bearer'')])
   \<and> require_authentication (Some client_user) = Inr client_user"
proof -
  have h1: "get_current_user settings (jose_decode 90000) default_users
       (bearer (login_token 1000 client_user)) = Inl credentials_exception"
    by (rule client_token_expired)
  have h: "Some (bearer (login_token 1000 client_user)) = None
     \<or> (\<exists>creds e. Some (bearer (login_token 1000 client_user)) = Some creds
          \<and> get_current_user settings (jose_decode 90000) default_users creds = Inl e)"
    using h1 by blast
  show ?thesis
    using h1 no_identity_is_unauthenticated [OF h, of client_user] by simp
qed




section \<open>Login and registration\<close>

text \<open>
  Claim C6. A login fails with one and the same exception, 401 ``Incorrect username or
  password'' with the same header, when the username is unknown, when the password
  does not match the stored hash, and when the account is inactive. (The lemma
  \<open>login_failure_is_generic\<close> adds that a login has no other failure.)
\<close>

theorem login_failures_identical:
  assumes "get_user_by_username db (ul_username d) = None
         \<or> (\<exists>u. get_user_by_username db (ul_username d) = Some u
               \<and> (\<not> verify_password checkpw (ul_password d) (hashed_password u)
                    \<or> \<not> is_active u))"
  shows "login S encode checkpw now db d
           = Inl (HTTPException 401 ''Incorrect username or password''
                    [(''WWW-Authenticate'', ''Bearer'')])"
  using assms by (auto simp: login_def authenticate_user_def)

lemma login_failure_is_generic:
  "login S encode checkpw now db d = Inl e \<Longrightarrow>
   e = HTTPException 401 ''Incorrect username or password'' [(''WWW-Authenticate'', ''Bearer'')]"
  by (auto simp: login_def Let_def split: option.splits)

lemma lookup_nobody: "get_user_by_username default_users ''nobody'' = None"
  by (simp add: get_user_by_username_def default_users_def admin_user_def client_user_def
      demo_admin_def)

lemma lookup_client: "get_user_by_username default_users ''client'' = Some client_user"
  by (simp add: get_user_by_username_def default_users_def admin_user_def client_user_def)

lemma lookup_admin: "get_user_by_username default_users ''admin'' = Some admin_user"
  by (simp add: get_user_by_username_def default_users_def admin_user_def)

theorem login_failures_identical_witness:
  "login settings jose_encode example_checkpw 1000 default_users
      \<lparr>ul_username = ''nobody'', ul_password = ''client123''\<rparr>
     = Inl (HTTPException 401 ''Incorrect username or password''
              [(''WWW-Authenticate'', ''Bearer'')])
   \<and> login settings jose_encode example_checkpw 1000 default_users
      \<lparr>ul_username = ''client'', ul_password = ''wrong''\<rparr>
     = Inl (HTTPException 401 ''Incorrect username or password''
              [(''WWW-Authenticate'', ''Bearer'')])
   \<and> verify_password example_checkpw ''client123'' (hashed_password client_user)
   \<and> login settings jose_encode example_checkpw 1000 [client_user\<lparr>is_active := False\<rparr>]
      \<lparr>ul_username = ''client'', ul_password = ''client123''\<rparr>
     = Inl (HTTPException 401 ''Incorrect username or password''
              [(''WWW-Authenticate'', ''Bearer'')])"
proof -
  have h1: "get_user_by_username default_users
              (ul_username \<lparr>ul_username = ''nobody'', ul_password = ''client123''\<rparr>) = None
         \<or> (\<exists>u. get_user_by_username default_users
                   (ul_username \<lparr>ul_username = ''nobody'', ul_password = ''client123''\<rparr>) = Some u
               \<and> (\<not> verify_password example_checkpw
                       (ul_password \<lparr>ul_username = ''nobody'', ul_password = ''client123''\<rparr>)
                       (hashed_password u)
                    \<or> \<not> is_active u))"
    by (simp add: lookup_nobody)
  have w: "\<not> verify_password example_checkpw ''wrong'' (hashed_password client_user)"
    by (simp add: verify_password_def example_checkpw_def example_hashpw_def client_user_def)
  have h2: "get_user_by_username default_users
              (ul_username \<lparr>ul_username = ''client'', ul_password = ''wrong''\<rparr>) = None
         \<or> (\<exists>u. get_user_by_username default_users
                   (ul_username \<lparr>ul_username = ''client'', ul_password = ''wrong''\<rparr>) = Some u
               \<and> (\<not> verify_password example_checkpw
                       (ul_password \<lparr>ul_username = ''client'', ul_password = ''wrong''\<rparr>)
                       (hashed_password u)
                    \<or> \<not> is_active u))"
    using w by (simp add: lookup_client)
  have l3: "get_user_by_username [client_user\<lparr>is_active := False\<rparr>] ''client''
              = Some (client_user\<lparr>is_active := False\<rparr>)"
    by (simp add: get_user_by_username_def client_user_def)
  have h3: "get_user_by_username [client_user\<lparr>is_active := False\<rparr>]
              (ul_username \<lparr>ul_username = ''client'', ul_password = ''client123''\<rparr>) = None
         \<or> (\<exists>u. get_user_by_username [client_user\<lparr>is_active := False\<rparr>]
                   (ul_username \<lparr>ul_username = ''client'', ul_password = ''client123''\<rparr>) = Some u
               \<and> (\<not> verify_password example_checkpw
                       (ul_password \<lparr>ul_username = ''client'', ul_password = ''client123''\<rparr>)
                       (hashed_password u)
                    \<or> \<not> is_active u))"
    by (simp add: l3)
  have v: "verify_password example_checkpw ''client123'' (hashed_password client_user)"
    by (simp add: verify_password_def example_checkpw_def example_hashpw_def client_user_def)
  show ?thesis
    using v
      login_failures_identical [OF h1, of settings jose_encode 1000]
      login_failures_identical [OF h2, of settings jose_encode 1000]
      login_failures_identical [OF h3, of settings jose_encode 1000]
    by simp
qed

text \<open>
  Claim C7 as stated fails: with accounts in the table, a registration that asks for
  role admin under a username already taken fails with ``Username already
  registered'', not with 403.
\<close>

theorem register_admin_with_taken_username_counterexample:
  "default_users \<noteq> []
   \<and> register settings jose_encode example_hashpw ''$2b$'' 1000 default_users
       \<lparr>uc_username = ''admin'', uc_email = ''second@example.com'', uc_full_name = None,
        uc_password = ''secret1'', uc_role = ADMIN\<rparr>
     = Inl (Http (HTTPException 400 ''Username already registered'' []))"
  by (simp add: register_def lookup_admin) (simp add: default_users_def)

text \<open>
  Claim C7, as amended. The checks of \<^verbatim>\<open>register\<close> run in order. On an empty table a
  registration with role admin succeeds and stores the admin account. On a non-empty
  table a registration with role admin whose username and email are both unused fails
  with 403. A taken username fails with 400 ``Username already registered'', whatever
  the role; a taken email with an unused username fails with 400 ``Email already
  registered''.
\<close>

theorem register_rules:
  "(db = [] \<and> uc_role d = ADMIN \<longrightarrow>
      register S encode hashpw salt now db d
        = Inr ([\<lparr> user_id = 1, username = uc_username d, email = uc_email d,
                   full_name = uc_full_name d,
                   hashed_password = hash_password hashpw salt (uc_password d),
                   role = ADMIN, is_active = True \<rparr>],
               \<lparr> access_token = create_access_token S encode now
                    [''sub'' \<mapsto> Str (uc_username d), ''role'' \<mapsto> Str ''admin'']
                    (Some (minutes (ACCESS_TOKEN_EXPIRE_MINUTES S))),
                 token_type = ''bearer'',
                 user = \<lparr> user_id = 1, username = uc_username d, email = uc_email d,
                   full_name = uc_full_name d,
                   hashed_password = hash_password hashpw salt (uc_password d),
                   role = ADMIN, is_active = True \<rparr> \<rparr>))
   \<and> (db \<noteq> [] \<and> uc_role d = ADMIN \<and> get_user_by_username db (uc_username d) = None
        \<and> get_user_by_email db (uc_email d) = None \<longrightarrow>
      register S encode hashpw salt now db d
        = Inl (Http (HTTPException 403
            ''Cannot self-register as admin. Please contact an existing admin.'' [])))
   \<and> (get_user_by_username db (uc_username d) \<noteq> None \<longrightarrow>
      register S encode hashpw salt now db d
        = Inl (Http (HTTPException 400 ''Username already registered'' [])))
   \<and> (get_user_by_username db (uc_username d) = None
        \<and> get_user_by_email db (uc_email d) \<noteq> None \<longrightarrow>
      register S encode hashpw salt now db d
        = Inl (Http (HTTPException 400 ''Email already registered'' [])))"
proof -
  have first: "db = [] \<Longrightarrow> uc_role d = ADMIN \<Longrightarrow>
      register S encode hashpw salt now db d
        = Inr ([\<lparr> user_id = 1, username = uc_username d, email = uc_email d,
                   full_name = uc_full_name d,
                   hashed_password = hash_password hashpw salt (uc_password d),
                   role = ADMIN, is_active = True \<rparr>],
               \<lparr> access_token = create_access_token S encode now
                    [''sub'' \<mapsto> Str (uc_username d), ''role'' \<mapsto> Str ''admin'']
                    (Some (minutes (ACCESS_TOKEN_EXPIRE_MINUTES S))),
                 token_type = ''bearer'',
                 user = \<lparr> user_id = 1, username = uc_username d, email = uc_email d,
                   full_name = uc_full_name d,
                   hashed_password = hash_password hashpw salt (uc_password d),
                   role = ADMIN, is_active = True \<rparr> \<rparr>)"
    by (simp add: register_def create_user_def get_user_by_username_def get_user_by_email_def
        next_id_def Let_def)
  have later: "db \<noteq> [] \<Longrightarrow> uc_role d = ADMIN \<Longrightarrow> get_user_by_username db (uc_username d) = None
      \<Longrightarrow> get_user_by_email db (uc_email d) = None \<Longrightarrow>
      register S encode hashpw salt now db d
        = Inl (Http (HTTPException 403
            ''Cannot self-register as admin. Please contact an existing admin.'' []))"
    by (simp add: register_def)
  have name: "get_user_by_username db (uc_username d) \<noteq> None \<Longrightarrow>
      register S encode hashpw salt now db d
        = Inl (Http (HTTPException 400 ''Username already registered'' []))"
    by (simp add: register_def)
  have mail: "get_user_by_username db (uc_username d) = None \<Longrightarrow>
      get_user_by_email db (uc_email d) \<noteq> None \<Longrightarrow>
      register S encode hashpw salt now db d
        = Inl (Http (HTTPException 400 ''Email already registered'' []))"
    by (simp add: register_def)
  from first later name mail show ?thesis by blast
qed


lemma lookup_root: "get_user_by_username default_users ''root'' = None"
  by (simp add: get_user_by_username_def default_users_def admin_user_def client_user_def
      demo_admin_def)

lemma lookup_root_mail: "get_user_by_email default_users ''root@example.com'' = None"
  by (simp add: get_user_by_email_def default_users_def admin_user_def client_user_def
      demo_admin_def)

lemma lookup_client_mail:
  "get_user_by_email default_users ''client@example.com'' = Some client_user"
  by (simp add: get_user_by_email_def default_users_def admin_user_def client_user_def)

lemma default_users_nonempty: "default_users \<noteq> []"
  by (simp add: default_users_def)

text \<open>
  The four rules on concrete requests: the first admin on an empty table, then a
  second admin, a taken username and a taken email on the table of the seeding script.
\<close>

theorem register_rules_witness:
  "register settings jose_encode example_hashpw ''$2b$'' 1000 []
       \<lparr>uc_username = ''root'', uc_email = ''root@example.com'', uc_full_name = None,
        uc_password = ''secret1'', uc_role = ADMIN\<rparr>
     = Inr ([\<lparr> user_id = 1, username = ''root'', email = ''root@example.com'',
                full_name = None, hashed_password = ''$2b$secret1'', role = ADMIN,
                is_active = True \<rparr>],
            \<lparr> access_token = JWS ''HS256''
                 [''sub'' \<mapsto> Str ''root'', ''role'' \<mapsto> Str ''admin'', ''exp'' \<mapsto> Num 87400]
                 (JWT_SECRET_KEY settings),
              token_type = ''bearer'',
              user = \<lparr> user_id = 1, username = ''root'', email = ''root@example.com'',
                full_name = None, hashed_password = ''$2b$secret1'', role = ADMIN,
                is_active = True \<rparr> \<rparr>)
   \<and> default_users \<noteq> []
   \<and> register settings jose_encode example_hashpw ''$2b$'' 1000 default_users
       \<lparr>uc_username = ''root'', uc_email = ''root@example.com'', uc_full_name = None,
        uc_password = ''secret1'', uc_role = ADMIN\<rparr>
     = Inl (Http (HTTPException 403
         ''Cannot self-register as admin. Please contact an existing admin.'' []))
   \<and> register settings jose_encode example_hashpw ''$2b$'' 1000 default_users
       \<lparr>uc_username = ''admin'', uc_email = ''root@example.com'', uc_full_name = None,
        uc_password = ''secret1'', uc_role = CLIENT\<rparr>
     = Inl (Http (HTTPException 400 ''Username already registered'' []))
   \<and> register settings jose_encode example_hashpw ''$2b$'' 1000 default_users
       \<lparr>uc_username = ''root'', uc_email = ''client@example.com'', uc_full_name = None,
        uc_password = ''secret1'', uc_role = CLIENT\<rparr>
     = Inl (Http (HTTPException 400 ''Email already registered'' []))"
proof -
  have tok: "create_access_token settings jose_encode 1000
               [''sub'' \<mapsto> Str ''root'', ''role'' \<mapsto> Str ''admin'']
               (Some (minutes (ACCESS_TOKEN_EXPIRE_MINUTES settings)))
             = JWS ''HS256''
                 [''sub'' \<mapsto> Str ''root'', ''role'' \<mapsto> Str ''admin'', ''exp'' \<mapsto> Num 87400]
                 (JWT_SECRET_KEY settings)"
    by (simp add: create_access_token_def jose_encode_def minutes_def
        ACCESS_TOKEN_EXPIRE_MINUTES_def settings_def)
  have hp: "hash_password example_hashpw ''$2b$'' ''secret1'' = ''$2b$secret1''"
    by (simp add: hash_password_def example_hashpw_def)
  show ?thesis
    using default_users_nonempty
      register_rules [where db = "[]" and S = settings and encode = jose_encode
        and hashpw = example_hashpw and salt = "''$2b$''" and now = 1000
        and d = "\<lparr>uc_username = ''root'', uc_email = ''root@example.com'',
                  uc_full_name = None, uc_password = ''secret1'', uc_role = ADMIN\<rparr>"]
      register_rules [where db = default_users and S = settings and encode = jose_encode
        and hashpw = example_hashpw and salt = "''$2b$''" and now = 1000
        and d = "\<lparr>uc_username = ''root'', uc_email = ''root@example.com'',
                  uc_full_name = None, uc_password = ''secret1'', uc_role = ADMIN\<rparr>"]
      register_rules [where db = default_users and S = settings and encode = jose_encode
        and hashpw = example_hashpw and salt = "''$2b$''" and now = 1000
        and d = "\<lparr>uc_username = ''admin'', uc_email = ''root@example.com'',
                  uc_full_name = None, uc_password = ''secret1'', uc_role = CLIENT\<rparr>"]
      register_rules [where db = default_users and S = settings and encode = jose_encode
        and hashpw = example_hashpw and salt = "''$2b$''" and now = 1000
        and d = "\<lparr>uc_username = ''root'', uc_email = ''client@example.com'',
                  uc_full_name = None, uc_password = ''secret1'', uc_role = CLIENT\<rparr>"]
    by (simp add: tok hp lookup_root lookup_root_mail lookup_admin lookup_client_mail)
qed

section \<open>Token expiry and repeated verification\<close>

text \<open>
  Claim C8 as stated fails in its last part: a token signed with the configured key
  whose claims hold a subject and no \<^verbatim>\<open>exp\<close> is accepted, at any time. The decoder is
  called without options, so no claim is required, and \<^verbatim>\<open>get_current_user\<close> reads
  only \<^verbatim>\<open>sub\<close> from the decoded claims.
\<close>

theorem token_without_exp_accepted_counterexample:
  "[''sub'' \<mapsto> Str ''client''] ''exp'' = None
   \<and> get_current_user settings (jose_decode 2000000000) default_users
       (bearer (jose_encode [''sub'' \<mapsto> Str ''client''] (JWT_SECRET_KEY settings)
                  (JWT_ALGORITHM settings)))
     = Inr client_user"
  by (simp add: get_current_user_def jose_decode_def jose_encode_def bearer_def lookup_client)

text \<open>
  Claim C8, as amended. A token issued by \<^verbatim>\<open>create_access_token\<close> at time \<open>issue\<close> with a
  lifetime \<open>T\<close> other than zero fails verification at every time after \<open>issue + T\<close>; with
  no lifetime given the configured one takes its place, and a zero lifetime counts as
  none given. More generally every token whose \<^verbatim>\<open>exp\<close> claim lies before the current
  time fails. The failure is the one \<open>credentials_exception\<close> (401 ``Could not validate
  credentials'') that every other verification failure raises.
\<close>

theorem expired_token_rejected:
  "(T \<noteq> 0 \<and> issue + T < now \<longrightarrow>
      get_current_user S (jose_decode now) db
        \<lparr>scheme = sch, credentials = create_access_token S jose_encode issue data (Some T)\<rparr>
        = Inl credentials_exception)
   \<and> (issue + minutes (ACCESS_TOKEN_EXPIRE_MINUTES S) < now \<longrightarrow>
      get_current_user S (jose_decode now) db
        \<lparr>scheme = sch, credentials = create_access_token S jose_encode issue data None\<rparr>
        = Inl credentials_exception)
   \<and> create_access_token S jose_encode issue data (Some 0)
        = create_access_token S jose_encode issue data None
   \<and> (claims ''exp'' = Some (Num e) \<and> e < now \<longrightarrow>
      get_current_user S (jose_decode now) db
        \<lparr>scheme = sch, credentials = JWS alg claims key\<rparr>
        = Inl credentials_exception)"
  by (simp add: get_current_user_def jose_decode_def create_access_token_def jose_encode_def)

theorem expired_token_rejected_witness:
  "(86400::int) \<noteq> 0 \<and> (1000::int) + 86400 < 90000
   \<and> get_current_user settings (jose_decode 90000) default_users
        \<lparr>scheme = ''Bearer'',
         credentials = create_access_token settings jose_encode 1000
           [''sub'' \<mapsto> Str ''client'', ''role'' \<mapsto> Str ''client''] (Some 86400)\<rparr>
        = Inl credentials_exception
   \<and> 1000 + minutes (ACCESS_TOKEN_EXPIRE_MINUTES settings) < 90000
   \<and> get_current_user settings (jose_decode 90000) default_users
        \<lparr>scheme = ''Bearer'',
         credentials = create_access_token settings jose_encode 1000
           [''sub'' \<mapsto> Str ''client'', ''role'' \<mapsto> Str ''client''] None\<rparr>
        = Inl credentials_exception
   \<and> [''sub'' \<mapsto> Str ''client'', ''exp'' \<mapsto> Num 5] ''exp'' = Some (Num 5) \<and> (5::int) < 90000
   \<and> get_current_user settings (jose_decode 90000) default_users
        \<lparr>scheme = ''Bearer'',
         credentials = JWS ''HS256'' [''sub'' \<mapsto> Str ''client'', ''exp'' \<mapsto> Num 5]
           (JWT_SECRET_KEY settings)\<rparr>
        = Inl credentials_exception"
proof -
  have m: "1000 + minutes (ACCESS_TOKEN_EXPIRE_MINUTES settings) < 90000"
    by (simp add: minutes_def ACCESS_TOKEN_EXPIRE_MINUTES_def settings_def)
  show ?thesis
    using m
      expired_token_rejected [where T = 86400 and issue = 1000 and now = 90000
        and S = settings and db = default_users and sch = "''Bearer''"
        and data = "[''sub'' \<mapsto> Str ''client'', ''role'' \<mapsto> Str ''client'']"
        and claims = "[''sub'' \<mapsto> Str ''client'', ''exp'' \<mapsto> Num 5]" and e = 5
        and alg = "''HS256''" and key = "JWT_SECRET_KEY settings"]
    by simp
qed



section \<open>The active flag\<close>

text \<open>
  Claim C10. The resolver and the two gates never read \<open>is_active\<close>. For an account \<open>u\<close>
  whose active flag is off, a token that decodes to the subject of \<open>u\<close> makes
  \<^verbatim>\<open>get_current_user\<close> and \<^verbatim>\<open>get_current_user_dual\<close> return \<open>u\<close>,
  \<^verbatim>\<open>require_authentication\<close> pass it, and \<^verbatim>\<open>require_admin\<close> pass it when its role is
  admin.
\<close>

theorem inactive_account_still_authorized:
  assumes "decode (credentials creds) (JWT_SECRET_KEY S) [JWT_ALGORITHM S] = Inr payload"
    and "payload ''sub'' = Some (Str name)"
    and "get_user_by_username db name = Some u"
    and "\<not> is_active u"
  shows "get_current_user S decode db creds = Inr u
       \<and> get_current_user_dual S decode db (Some creds) api_key = Some u
       \<and> depends_require_authentication S decode db
            \<lparr>authorization = Some creds, x_api_key = None\<rparr> = Inr u
       \<and> (role u = ADMIN \<longrightarrow>
            depends_require_admin S decode db
              \<lparr>authorization = Some creds, x_api_key = None\<rparr> = Inr u)"
proof -
  have g: "get_current_user S decode db creds = Inr u"
    using assms(1-3) by (auto simp: get_current_user_Inr_iff)
  then have "get_current_user_dual S decode db (Some creds) k = Some u" for k
    by (rule dual_bearer_ok)
  with g show ?thesis
    by (simp add: depends_require_admin_def depends_require_authentication_def
        depends_get_current_user_dual_def get_api_key_def require_authentication_def
        require_admin_def)
qed

theorem inactive_account_still_authorized_witness:
  "jose_decode 2000 (credentials (bearer (login_token 1000 admin_user)))
       (JWT_SECRET_KEY settings) [JWT_ALGORITHM settings]
     = Inr [''sub'' \<mapsto> Str ''admin'', ''role'' \<mapsto> Str ''admin'', ''exp'' \<mapsto> Num 87400]
   \<and> get_user_by_username [admin_user\<lparr>is_active := False\<rparr>] ''admin''
     = Some (admin_user\<lparr>is_active := False\<rparr>)
   \<and> \<not> is_active (admin_user\<lparr>is_active := False\<rparr>)
   \<and> role (admin_user\<lparr>is_active := False\<rparr>) = ADMIN
   \<and> depends_require_admin settings (jose_decode 2000) [admin_user\<lparr>is_active := False\<rparr>]
       \<lparr>authorization = Some (bearer (login_token 1000 admin_user)), x_api_key = None\<rparr>
     = Inr (admin_user\<lparr>is_active := False\<rparr>)"
proof -
  have h1: "jose_decode 2000 (credentials (bearer (login_token 1000 admin_user)))
       (JWT_SECRET_KEY settings) [JWT_ALGORITHM settings]
     = Inr [''sub'' \<mapsto> Str ''admin'', ''role'' \<mapsto> Str ''admin'', ''exp'' \<mapsto> Num 87400]"
    by (simp add: login_token_eq jose_decode_def bearer_def admin_user_def)
  have h2: "[''sub'' \<mapsto> Str ''admin'', ''role'' \<mapsto> Str ''admin'', ''exp'' \<mapsto> Num 87400] ''sub''
     = Some (Str ''admin'')"
    by simp
  have h3: "get_user_by_username [admin_user\<lparr>is_active := False\<rparr>] ''admin''
     = Some (admin_user\<lparr>is_active := False\<rparr>)"
    by (simp add: get_user_by_username_def admin_user_def)
  have h4: "\<not> is_active (admin_user\<lparr>is_active := False\<rparr>)"
    by simp
  have h5: "role (admin_user\<lparr>is_active := False\<rparr>) = ADMIN"
    by (simp add: admin_user_def)
  show ?thesis
    using h1 h3 h4 h5
      inactive_account_still_authorized [where decode = "jose_decode 2000" and S = settings
        and creds = "bearer (login_token 1000 admin_user)"
        and payload = "[''sub'' \<mapsto> Str ''admin'', ''role'' \<mapsto> Str ''admin'',
                        ''exp'' \<mapsto> Num 87400]"
        and name = "''admin''" and db = "[admin_user\<lparr>is_active := False\<rparr>]"
        and u = "admin_user\<lparr>is_active := False\<rparr>" and api_key = None,
        OF h1 h2 h3 h4]
    by simp
qed

end
